theory Spec2Isabelle
  imports Main
begin

section \<open>Package server: the error envelope (error_response.go)\<close>

text \<open>
  The Go struct \<^verbatim>\<open>server.Error\<close> has four string fields; the empty string is the
  zero value that \<^verbatim>\<open>omitempty\<close> leaves out of the JSON text.
\<close>

record Error =
  Status :: string
  Code :: string
  Title :: string
  Detail :: string

definition NewInternalServerError :: Error where
  "NewInternalServerError =
     \<lparr>Status = ''500'', Code = [], Title = ''Internal Server Error'',
      Detail = ''There is an error processing the request.''\<rparr>"

definition NewStatusNotFoundError :: Error where
  "NewStatusNotFoundError =
     \<lparr>Status = ''404'', Code = [], Title = ''Not Found'',
      Detail = ''The requested resource does not exist.''\<rparr>"

section \<open>Resource objects of the library package\<close>

text \<open>
  The package \<^verbatim>\<open>github.com/jeremybouzigard/library\<close> is an external collaborator. Of a
  song the handlers read only \<^verbatim>\<open>song.Attributes.FilePath\<close>; albums and artists are
  passed through untouched, so they are opaque values here. A Go pointer that may be
  \<^verbatim>\<open>nil\<close> is an \<open>option\<close>.
\<close>

record SongAttributes =
  FilePath :: string

record Song =
  Attributes :: SongAttributes

datatype Album = Album string

datatype Artist = Artist string

text \<open>The response structs of the package server: each wraps one slice of pointers.\<close>

datatype json_value =
    ErrorResponse "Error list"
  | SongResponse "Song option list"
  | ArtistResponse "Artist option list"
  | AlbumResponse "Album option list"

section \<open>The response writer of net/http\<close>

text \<open>
  What a handler does to its \<^verbatim>\<open>http.ResponseWriter\<close>: it sets headers, writes the
  status line once, and writes the body. A body item is either a value handed to
  \<^verbatim>\<open>json.NewEncoder(w).Encode\<close> or a path handed to \<^verbatim>\<open>http.ServeFile\<close>, which
  reads that file and answers for the handler. \<open>conn_err\<close> is the error that a write
  on the underlying connection returns (\<open>None\<close>: writes succeed).
\<close>

datatype body_item = JSON json_value | ServedFile string

record ResponseWriter =
  Header :: "string \<rightharpoonup> string"
  status :: "int option"
  body :: "body_item list"
  conn_err :: "string option"

definition newResponseWriter :: ResponseWriter where
  "newResponseWriter = \<lparr>Header = Map.empty, status = None, body = [], conn_err = None\<rparr>"

abbreviation StatusOK :: int where "StatusOK \<equiv> 200"
abbreviation StatusNotFound :: int where "StatusNotFound \<equiv> 404"
abbreviation StatusInternalServerError :: int where "StatusInternalServerError \<equiv> 500"

text \<open>Headers set after the status line has gone out are not sent.\<close>

definition Header_Set :: "ResponseWriter \<Rightarrow> string \<Rightarrow> string \<Rightarrow> ResponseWriter" where
  "Header_Set w k v = (if status w = None then w\<lparr>Header := (Header w)(k \<mapsto> v)\<rparr> else w)"

text \<open>Only the first call of \<^verbatim>\<open>WriteHeader\<close> counts; a later one is ignored.\<close>

definition WriteHeader :: "ResponseWriter \<Rightarrow> int \<Rightarrow> ResponseWriter" where
  "WriteHeader w code = (if status w = None then w\<lparr>status := Some code\<rparr> else w)"

text \<open>
  \<^verbatim>\<open>json.NewEncoder(w).Encode(v)\<close>: a write sends status 200 first when no status line
  has been written, then the encoded value; it returns the connection's error.
\<close>

definition json_Encode :: "ResponseWriter \<Rightarrow> json_value \<Rightarrow> ResponseWriter \<times> string option" where
  "json_Encode w v =
     (let w1 = WriteHeader w StatusOK
      in case conn_err w1 of
           None \<Rightarrow> (w1\<lparr>body := body w1 @ [JSON v]\<rparr>, None)
         | Some e \<Rightarrow> (w1, Some e))"

text \<open>\<^verbatim>\<open>http.ServeFile(w, r, name)\<close>: the standard library answers with the file \<open>name\<close>.\<close>

definition http_ServeFile :: "ResponseWriter \<Rightarrow> string \<Rightarrow> ResponseWriter" where
  "http_ServeFile w name = w\<lparr>body := body w @ [ServedFile name]\<rparr>"

section \<open>Writing errors (handleError, handleNotFound, encodeJSON)\<close>

text \<open>
  Go's conversion \<^verbatim>\<open>string(code)\<close> of an integer gives the UTF-8 encoding of that
  code point, and U+FFFD for a value that is no code point.
\<close>

definition string_of_rune :: "int \<Rightarrow> string" where
  "string_of_rune r =
     (if r < 0 \<or> 1114111 < r \<or> (55296 \<le> r \<and> r \<le> 57343)
      then [char_of (239::int), char_of (191::int), char_of (189::int)]
      else if r < 128 then [char_of r]
      else if r < 2048 then [char_of (192 + r div 64), char_of (128 + r mod 64)]
      else if r < 65536
      then [char_of (224 + r div 4096), char_of (128 + (r div 64) mod 64),
            char_of (128 + r mod 64)]
      else [char_of (240 + r div 262144), char_of (128 + (r div 4096) mod 64),
            char_of (128 + (r div 64) mod 64), char_of (128 + r mod 64)])"

text \<open>A Go \<^verbatim>\<open>error\<close> is \<open>None\<close> for \<^verbatim>\<open>nil\<close> and otherwise carries its message.\<close>

datatype panic = NilDereference

definition handleError :: "ResponseWriter \<Rightarrow> string option \<Rightarrow> int \<Rightarrow> panic + ResponseWriter" where
  "handleError w err code =
     (case (if code = StatusInternalServerError then Inr NewInternalServerError
            else if code = StatusNotFound then Inr NewStatusNotFoundError
            else (case err of
                    None \<Rightarrow> Inl NilDereference
                  | Some msg \<Rightarrow>
                      Inr \<lparr>Status = string_of_rune code, Code = [], Title = [], Detail = msg\<rparr>))
      of Inl p \<Rightarrow> Inl p
       | Inr e \<Rightarrow>
           (let er = ErrorResponse ([] @ [e]);
                w1 = Header_Set w ''Content-Type'' ''application/json'';
                w2 = WriteHeader w1 StatusOK
            in Inr (fst (json_Encode w2 er))))"

definition handleNotFound :: "ResponseWriter \<Rightarrow> panic + ResponseWriter" where
  "handleNotFound w = handleError w None StatusNotFound"

definition encodeJSON :: "ResponseWriter \<Rightarrow> json_value \<Rightarrow> panic + ResponseWriter" where
  "encodeJSON w v =
     (let w1 = Header_Set w ''Content-Type'' ''application/json'';
          w2 = WriteHeader w1 StatusOK;
          (w3, err) = json_Encode w2 v
      in if err \<noteq> None then handleError w3 err StatusInternalServerError else Inr w3)"

section \<open>The operating system: files, directories and external commands\<close>

text \<open>
  The file system is a map from paths to nodes. \<^verbatim>\<open>os.Stat\<close> reports a missing path
  with an error for which \<^verbatim>\<open>os.IsNotExist\<close> holds; \<^verbatim>\<open>os.Mkdir\<close> creates one
  directory and fails when the path exists or its parent is no directory.
\<close>

datatype node = File string | Dir

type_synonym filesys = "string \<rightharpoonup> node"

datatype os_error = ErrNotExist | ErrExist | ErrNotDir

definition os_Stat :: "filesys \<Rightarrow> string \<Rightarrow> node option \<times> os_error option" where
  "os_Stat fs name = (case fs name of None \<Rightarrow> (None, Some ErrNotExist) | Some n \<Rightarrow> (Some n, None))"

definition os_IsNotExist :: "os_error option \<Rightarrow> bool" where
  "os_IsNotExist err = (err = Some ErrNotExist)"

definition parent_dir :: "string \<Rightarrow> string" where
  "parent_dir name = rev (drop 1 (dropWhile (\<lambda>c. c \<noteq> CHR ''/'') (rev name)))"

definition os_Mkdir :: "filesys \<Rightarrow> string \<Rightarrow> filesys \<times> os_error option" where
  "os_Mkdir fs name =
     (if fs name \<noteq> None then (fs, Some ErrExist)
      else case fs (parent_dir name) of
             None \<Rightarrow> (fs, Some ErrNotExist)
           | Some (File c) \<Rightarrow> (fs, Some ErrNotDir)
           | Some Dir \<Rightarrow> (fs(name \<mapsto> Dir), None))"

text \<open>
  An external command is a black box: given its name and arguments it changes the file
  system and succeeds or fails. The world records every command that was run, in order.
\<close>

type_synonym command = "string \<times> string list"

type_synonym exec_env = "command \<Rightarrow> filesys \<Rightarrow> filesys \<times> string option"

record world =
  fs :: filesys
  execs :: "command list"

definition cmd_Run :: "exec_env \<Rightarrow> command \<Rightarrow> world \<Rightarrow> world \<times> string option" where
  "cmd_Run ex cmd wld =
     (let (fs', err) = ex cmd (fs wld)
      in (wld\<lparr>fs := fs', execs := execs wld @ [cmd]\<rparr>, err))"

section \<open>Package hls (pkg/hls/hls.go)\<close>

definition Segment :: "exec_env \<Rightarrow> string \<Rightarrow> string \<Rightarrow> world \<Rightarrow> world \<times> string option" where
  "Segment ex songPath destPath wld =
     (let cmd = (''mediafilesegmenter'', [''-a'', ''-f'', destPath, songPath]);
          (wld', err) = cmd_Run ex cmd wld
      in if err \<noteq> None then (wld', err) else (wld', None))"

section \<open>The handler (package http)\<close>

text \<open>
  The services of the handler are the library's lookups by identifier; each returns a
  pointer and an error. \<^verbatim>\<open>mux.Vars(r)\<close> is a Go map: reading a missing key gives the
  empty string.
\<close>

record Handler =
  TempDir :: string
  AlbumService_Album :: "string \<Rightarrow> Album option \<times> string option"
  ArtistService_Artist :: "string \<Rightarrow> Artist option \<times> string option"
  SongService_Song :: "string \<Rightarrow> Song option \<times> string option"

type_synonym vars = "string \<rightharpoonup> string"

definition index_vars :: "vars \<Rightarrow> string \<Rightarrow> string" where
  "index_vars vs k = (case vs k of None \<Rightarrow> [] | Some v \<Rightarrow> v)"

definition handleGetSongByID :: "Handler \<Rightarrow> ResponseWriter \<Rightarrow> vars \<Rightarrow> panic + ResponseWriter" where
  "handleGetSongByID h w vs =
     (let id = index_vars vs ''id''
      in if length id > 0
         then (let (a, err) = SongService_Song h id
               in if err \<noteq> None then handleError w err StatusInternalServerError
                  else if a = None then handleNotFound w
                  else encodeJSON w (SongResponse ([] @ [a])))
         else Inr w)"

definition handleGetArtistByID :: "Handler \<Rightarrow> ResponseWriter \<Rightarrow> vars \<Rightarrow> panic + ResponseWriter" where
  "handleGetArtistByID h w vs =
     (let id = index_vars vs ''id''
      in if length id > 0
         then (let (a, err) = ArtistService_Artist h id
               in if err \<noteq> None then handleError w err StatusInternalServerError
                  else if a = None then handleNotFound w
                  else encodeJSON w (ArtistResponse ([] @ [a])))
         else Inr w)"

definition handleGetAlbumByID :: "Handler \<Rightarrow> ResponseWriter \<Rightarrow> vars \<Rightarrow> panic + ResponseWriter" where
  "handleGetAlbumByID h w vs =
     (let id = index_vars vs ''id''
      in if length id > 0
         then (let (a, err) = AlbumService_Album h id
               in if err \<noteq> None then handleError w err StatusInternalServerError
                  else encodeJSON w (AlbumResponse ([] @ [a])))
         else Inr w)"

subsection \<open>Streaming: playlist and segment\<close>

text \<open>
  A streaming handler also acts on the world, so it takes the world and returns the new
  one beside the response. The results of \<^verbatim>\<open>os.Mkdir\<close> and \<^verbatim>\<open>hls.Segment\<close> are
  dropped by \<^verbatim>\<open>servePlaylist\<close>, as in the source.
\<close>

definition playlist_dir :: "Handler \<Rightarrow> string \<Rightarrow> string" where
  "playlist_dir h songID = TempDir h @ ''/'' @ songID"

definition playlist_path :: "Handler \<Rightarrow> string \<Rightarrow> string" where
  "playlist_path h songID = TempDir h @ ''/'' @ songID @ ''/prog_index.m3u8''"

definition servePlaylist ::
  "exec_env \<Rightarrow> Handler \<Rightarrow> ResponseWriter \<Rightarrow> string \<Rightarrow> string \<Rightarrow> world \<Rightarrow> world \<times> ResponseWriter" where
  "servePlaylist ex h w songID songPath wld =
     (let playlistPath = playlist_path h songID;
          wld1 = (if os_IsNotExist (snd (os_Stat (fs wld) playlistPath))
                  then (let playlistDir = playlist_dir h songID;
                            wld' = wld\<lparr>fs := fst (os_Mkdir (fs wld) playlistDir)\<rparr>
                        in fst (Segment ex songPath playlistDir wld'))
                  else wld);
          w1 = Header_Set w ''Content-Type'' ''application/x-mpegURL''
      in (wld1, http_ServeFile w1 playlistPath))"

definition on_world :: "world \<Rightarrow> panic + ResponseWriter \<Rightarrow> panic + world \<times> ResponseWriter" where
  "on_world wld res = (case res of Inl p \<Rightarrow> Inl p | Inr w \<Rightarrow> Inr (wld, w))"

definition handleGetStreamPlaylist ::
  "exec_env \<Rightarrow> Handler \<Rightarrow> ResponseWriter \<Rightarrow> vars \<Rightarrow> world \<Rightarrow> panic + world \<times> ResponseWriter" where
  "handleGetStreamPlaylist ex h w vs wld =
     (let songID = index_vars vs ''id''
      in if length songID > 0
         then (let (song, err) = SongService_Song h songID
               in if err \<noteq> None then on_world wld (handleError w err StatusInternalServerError)
                  else case song of
                         None \<Rightarrow> on_world wld (handleNotFound w)
                       | Some s \<Rightarrow> Inr (servePlaylist ex h w songID (FilePath (Attributes s)) wld))
         else Inr (wld, w))"

definition serveSegment :: "Handler \<Rightarrow> ResponseWriter \<Rightarrow> string \<Rightarrow> string \<Rightarrow> ResponseWriter" where
  "serveSegment h w seg songID =
     (let playlistDir = TempDir h @ ''/'' @ songID;
          segPath = playlistDir @ ''/'' @ seg;
          w1 = Header_Set w ''Content-Type'' ''audio/aac''
      in http_ServeFile w1 segPath)"

definition handleGetStreamSegment ::
  "Handler \<Rightarrow> ResponseWriter \<Rightarrow> vars \<Rightarrow> world \<Rightarrow> panic + world \<times> ResponseWriter" where
  "handleGetStreamSegment h w vs wld =
     (let songID = index_vars vs ''id''
      in if length songID > 0
         then (let (song, err) = SongService_Song h songID
               in if err \<noteq> None then on_world wld (handleError w err StatusInternalServerError)
                  else if song = None then on_world wld (handleNotFound w)
                  else (let seg = index_vars vs ''seg''
                        in Inr (wld, serveSegment h w seg songID)))
         else Inr (wld, w))"

section \<open>The routes of StartServer\<close>

text \<open>
  A route template of gorilla/mux is literal text with variables \<^verbatim>\<open>{name:pattern}\<close>;
  the router compiles it to one regular expression anchored at both ends, each variable
  a capture group holding its pattern as written. The patterns of this program use
  three forms only: a literal character, the class \<^verbatim>\<open>[0-9]\<close> and the dot, which
  in Go's regular expressions matches every character except the newline; each is taken
  once or, under \<^verbatim>\<open>+\<close>, once or more.
\<close>

datatype cclass = Lit char | Digit | AnyChar

fun accepts :: "cclass \<Rightarrow> char \<Rightarrow> bool" where
  "accepts (Lit x) c = (c = x)"
| "accepts Digit c = (c \<in> set ''0123456789'')"
| "accepts AnyChar c = (c \<noteq> CHR 0x0A)"

datatype atom = One cclass | Plus cclass

fun matches :: "atom list \<Rightarrow> string \<Rightarrow> bool" where
  "matches [] s = (s = [])"
| "matches (One p # rs) [] = False"
| "matches (One p # rs) (c # cs) = (accepts p c \<and> matches rs cs)"
| "matches (Plus p # rs) [] = False"
| "matches (Plus p # rs) (c # cs) = (accepts p c \<and> (matches (Plus p # rs) cs \<or> matches rs cs))"

definition lits :: "string \<Rightarrow> atom list" where
  "lits s = map (\<lambda>c. One (Lit c)) s"

text \<open>The two variable patterns of the source: \<^verbatim>\<open>[0-9]+\<close> and \<^verbatim>\<open>fileSequence[0-9]+.aac\<close>.\<close>

definition id_pattern :: "atom list" where
  "id_pattern = [Plus Digit]"

definition seg_pattern :: "atom list" where
  "seg_pattern = lits ''fileSequence'' @ [Plus Digit, One AnyChar] @ lits ''aac''"

datatype part = Raw string | Var string "atom list"

text \<open>
  Matching a template against a whole path gives the captured variables. A variable
  takes the longest piece that lets the rest of the template match.
\<close>

primrec mux_match :: "part list \<Rightarrow> string \<Rightarrow> (string \<times> string) list option" where
  "mux_match [] s = (if s = [] then Some [] else None)"
| "mux_match (p # ps) s =
     (case p of
        Raw r \<Rightarrow> (if take (length r) s = r then mux_match ps (drop (length r) s) else None)
      | Var n pat \<Rightarrow>
          (case List.find (\<lambda>k. matches pat (take k s) \<and> mux_match ps (drop k s) \<noteq> None)
                  (rev [0..<Suc (length s)]) of
             None \<Rightarrow> None
           | Some k \<Rightarrow> map_option (\<lambda>vs. (n, take k s) # vs) (mux_match ps (drop k s))))"

datatype handler_name =
    GetAlbums | GetAlbumByID | GetGenres | GetArtists | GetArtistByID | GetSongs
  | GetSongByID | GetStreamPlaylist | GetStreamSegment | NotFound

text \<open>
  The routes in the order StartServer registers them. Each is registered for the method
  GET, and the router is modelled for GET requests.
\<close>

definition routes :: "(part list \<times> handler_name) list" where
  "routes =
     [([Raw ''/albums''], GetAlbums),
      ([Raw ''/albums/'', Var ''id'' id_pattern], GetAlbumByID),
      ([Raw ''/genres''], GetGenres),
      ([Raw ''/artists''], GetArtists),
      ([Raw ''/artists/'', Var ''id'' id_pattern], GetArtistByID),
      ([Raw ''/songs''], GetSongs),
      ([Raw ''/songs/'', Var ''id'' id_pattern], GetSongByID),
      ([Raw ''/songs/'', Var ''id'' id_pattern, Raw ''/stream''], GetStreamPlaylist),
      ([Raw ''/songs/'', Var ''id'' id_pattern, Raw ''/'', Var ''seg'' seg_pattern],
       GetStreamSegment)]"

text \<open>
  The router takes the first route that matches a GET request's path; the last route,
  \<^verbatim>\<open>PathPrefix("/")\<close>, takes every path that begins with a slash.
\<close>

fun first_route :: "(part list \<times> handler_name) list \<Rightarrow> string \<Rightarrow> (handler_name \<times> vars) option" where
  "first_route [] path = (if take 1 path = ''/'' then Some (NotFound, Map.empty) else None)"
| "first_route ((tpl, hn) # rts) path =
     (case mux_match tpl path of
        Some vs \<Rightarrow> Some (hn, map_of vs)
      | None \<Rightarrow> first_route rts path)"

definition route :: "string \<Rightarrow> (handler_name \<times> vars) option" where
  "route path = first_route routes path"

section \<open>Concurrent playlist requests\<close>

text \<open>
  net/http runs every request in a goroutine of its own, and \<^verbatim>\<open>servePlaylist\<close> takes
  no lock. Several requests for one song are therefore tasks that each run the body of
  \<^verbatim>\<open>servePlaylist\<close> on the shared world, interleaved at its four calls: \<^verbatim>\<open>os.Stat\<close>,
  \<^verbatim>\<open>os.Mkdir\<close>, \<^verbatim>\<open>hls.Segment\<close> and \<^verbatim>\<open>http.ServeFile\<close>. A task's program counter
  says which call is next; a finished task keeps what stood at the playlist path when
  the file server read it. A schedule is the list of task numbers in the order in which
  they take their steps.
\<close>

datatype pc = AtStat | AtMkdir | AtSegment | AtServe | Finished "node option"

record tasks =
  shared :: world
  pcs :: "pc list"

definition task_step :: "exec_env \<Rightarrow> Handler \<Rightarrow> string \<Rightarrow> string \<Rightarrow> tasks \<Rightarrow> nat \<Rightarrow> tasks" where
  "task_step ex h songID songPath s i =
     (if i < length (pcs s)
      then (case pcs s ! i of
              AtStat \<Rightarrow>
                s\<lparr>pcs := (pcs s)[i :=
                     (if os_IsNotExist (snd (os_Stat (fs (shared s)) (playlist_path h songID)))
                      then AtMkdir else AtServe)]\<rparr>
            | AtMkdir \<Rightarrow>
                s\<lparr>shared := (shared s)\<lparr>fs := fst (os_Mkdir (fs (shared s)) (playlist_dir h songID))\<rparr>,
                  pcs := (pcs s)[i := AtSegment]\<rparr>
            | AtSegment \<Rightarrow>
                s\<lparr>shared := fst (Segment ex songPath (playlist_dir h songID) (shared s)),
                  pcs := (pcs s)[i := AtServe]\<rparr>
            | AtServe \<Rightarrow>
                s\<lparr>pcs := (pcs s)[i := Finished (fs (shared s) (playlist_path h songID))]\<rparr>
            | Finished n \<Rightarrow> s)
      else s)"

definition run_tasks :: "exec_env \<Rightarrow> Handler \<Rightarrow> string \<Rightarrow> string \<Rightarrow> nat list \<Rightarrow> tasks \<Rightarrow> tasks" where
  "run_tasks ex h songID songPath sched s = foldl (task_step ex h songID songPath) s sched"

definition start_tasks :: "nat \<Rightarrow> world \<Rightarrow> tasks" where
  "start_tasks n wld = \<lparr>shared = wld, pcs = replicate n AtStat\<rparr>"







section \<open>Shutdown (the goroutine of StartServer)\<close>






section \<open>A small library, a workspace and two segmenters\<close>

text \<open>
  Concrete inputs on which the theorems below are run: a library that knows the song 42
  only, a world in which the workspace exists and nothing has been prepared, a segmenter
  that fails and writes nothing, and one that writes a playlist and one segment.
\<close>

definition demo_song :: Song where
  "demo_song = \<lparr>Attributes = \<lparr>FilePath = ''/music/42.mp3''\<rparr>\<rparr>"

definition demo_handler :: Handler where
  "demo_handler =
     \<lparr>TempDir = ''/tmp/hls1'',
      AlbumService_Album = (\<lambda>id. (None, None)),
      ArtistService_Artist = (\<lambda>id. (None, None)),
      SongService_Song = (\<lambda>id. if id = ''42'' then (Some demo_song, None) else (None, None))\<rparr>"

definition demo_world :: world where
  "demo_world = \<lparr>fs = [''/tmp/hls1'' \<mapsto> Dir], execs = []\<rparr>"

definition segmenter_fails :: exec_env where
  "segmenter_fails cmd fsys = (fsys, Some ''exit status 1'')"

definition segmenter_ok :: exec_env where
  "segmenter_ok cmd fsys =
     (case cmd of
        (name, [a, f, destPath, songPath]) \<Rightarrow>
          (fsys(destPath @ ''/prog_index.m3u8'' \<mapsto> File ''#EXTM3U'',
                 destPath @ ''/fileSequence0.aac'' \<mapsto> File songPath), None)
      | _ \<Rightarrow> (fsys, Some ''usage''))"

definition not_found_reply :: ResponseWriter where
  "not_found_reply =
     \<lparr>Header = [''Content-Type'' \<mapsto> ''application/json''], status = Some StatusOK,
      body = [JSON (ErrorResponse [NewStatusNotFoundError])], conn_err = None\<rparr>"



section \<open>Facts about the writer and the playlist step\<close>

lemma handleError_known_code:
  assumes "code = StatusInternalServerError \<or> code = StatusNotFound"
  shows "handleError w err code =
           Inr (fst (json_Encode
                  (WriteHeader (Header_Set w ''Content-Type'' ''application/json'') StatusOK)
                  (ErrorResponse [if code = StatusInternalServerError then NewInternalServerError
                                  else NewStatusNotFoundError])))"
  using assms by (auto simp: handleError_def)

lemma handleNotFound_new: "handleNotFound newResponseWriter = Inr not_found_reply"
  by (simp add: handleNotFound_def handleError_def newResponseWriter_def json_Encode_def
      WriteHeader_def Header_Set_def not_found_reply_def)

lemma encodeJSON_new:
  "encodeJSON newResponseWriter v =
     Inr \<lparr>Header = [''Content-Type'' \<mapsto> ''application/json''], status = Some StatusOK,
          body = [JSON v], conn_err = None\<rparr>"
  by (simp add: encodeJSON_def newResponseWriter_def json_Encode_def WriteHeader_def Header_Set_def)





section \<open>Facts about the routes\<close>

lemma matches_lits:
  "matches (lits a @ rs) s \<longleftrightarrow> take (length a) s = a \<and> matches rs (drop (length a) s)"
proof (induction a arbitrary: s)
  case Nil
  then show ?case by (simp add: lits_def)
next
  case (Cons x a)
  then show ?case by (cases s) (auto simp: lits_def)
qed

lemma matches_lits_end: "matches (lits a) s \<longleftrightarrow> s = a"
  using matches_lits [of a "[]" s] by (auto simp: take_all_iff)

lemma matches_digits_then:
  "matches (Plus Digit # rs) s \<Longrightarrow>
     \<exists>ds rest. s = ds @ rest \<and> ds \<noteq> [] \<and> (\<forall>d \<in> set ds. accepts Digit d) \<and> matches rs rest"
proof (induction s)
  case Nil
  then show ?case by simp
next
  case (Cons c s)
  from Cons.prems have c: "accepts Digit c"
    and alt: "matches (Plus Digit # rs) s \<or> matches rs s"
    by simp_all
  from alt show ?case
  proof
    assume "matches (Plus Digit # rs) s"
    from Cons.IH [OF this] obtain ds rest
      where "s = ds @ rest" "ds \<noteq> []" "\<forall>d \<in> set ds. accepts Digit d" "matches rs rest"
      by blast
    with c show ?thesis
      by (intro exI [of _ "c # ds"] exI [of _ rest]) simp
  next
    assume "matches rs s"
    with c show ?thesis
      by (intro exI [of _ "[c]"] exI [of _ s]) simp
  qed
qed

text \<open>
  What the segment pattern lets through: the word fileSequence, digits, any one
  character but the newline, and aac.
\<close>

lemma seg_pattern_shape:
  assumes "matches seg_pattern seg"
  shows "\<exists>ds c. seg = ''fileSequence'' @ ds @ [c] @ ''aac'' \<and> ds \<noteq> [] \<and>
           (\<forall>d \<in> set ds. accepts Digit d) \<and> c \<noteq> CHR 0x0A"
proof -
  let ?p = "''fileSequence''"
  from assms have "matches (lits ?p @ (Plus Digit # One AnyChar # lits ''aac'')) seg"
    by (simp only: seg_pattern_def append_Cons append_Nil)
  then have pre: "take (length ?p) seg = ?p"
    and rest: "matches (Plus Digit # One AnyChar # lits ''aac'') (drop (length ?p) seg)"
    unfolding matches_lits by blast+
  from matches_digits_then [OF rest] obtain ds r
    where r: "drop (length ?p) seg = ds @ r" "ds \<noteq> []" "\<forall>d \<in> set ds. accepts Digit d"
      "matches (One AnyChar # lits ''aac'') r"
    by blast
  from r(4) obtain c where c: "r = c # ''aac''" "c \<noteq> CHR 0x0A"
    by (cases r) (simp_all add: matches_lits_end)
  have "seg = take (length ?p) seg @ drop (length ?p) seg"
    by (simp only: append_take_drop_id)
  then have "seg = ?p @ ds @ [c] @ ''aac''"
    unfolding pre r(1) c(1) by simp
  with r(2,3) c(2) show ?thesis by blast
qed

lemma digit_no_separator: "accepts Digit d \<Longrightarrow> d \<noteq> CHR ''.'' \<and> d \<noteq> CHR ''/''"
  by auto

lemma digits_no_separator:
  "\<forall>d \<in> set ds. accepts Digit d \<Longrightarrow> filter (\<lambda>x. x = CHR ''.'' \<or> x = CHR ''/'') ds = []"
  unfolding filter_empty_conv using digit_no_separator by blast

text \<open>
  So a name that matches begins with the letter f, which makes it a relative path, and
  holds at most one dot or slash, which leaves no room for a parent-directory step.
\<close>

lemma segment_name_relative_one_separator:
  assumes "matches seg_pattern seg"
  shows "take 1 seg = ''f'' \<and>
         length (filter (\<lambda>x. x = CHR ''.'' \<or> x = CHR ''/'') seg) \<le> 1"
proof -
  from seg_pattern_shape [OF assms] obtain ds c
    where seg: "seg = ''fileSequence'' @ ds @ [c] @ ''aac''"
      and ds: "\<forall>d \<in> set ds. accepts Digit d"
    by blast
  note none = digits_no_separator [OF ds]
  have "take 1 (''fileSequence'' @ ds @ [c] @ ''aac'') = ''f''"
    by simp
  moreover have "length (filter (\<lambda>x. x = CHR ''.'' \<or> x = CHR ''/'')
                   (''fileSequence'' @ ds @ [c] @ ''aac'')) \<le> 1"
    by (simp add: none)
  ultimately show ?thesis unfolding seg ..
qed

lemma id_pattern_nonempty: "matches id_pattern s \<Longrightarrow> s \<noteq> []"
  by (cases s) (simp_all add: id_pattern_def)

lemma mux_match_Raw:
  "mux_match (Raw r # ps) s = Some vs \<Longrightarrow>
     take (length r) s = r \<and> mux_match ps (drop (length r) s) = Some vs"
  by (simp split: if_splits)

lemma mux_match_Var:
  assumes "mux_match (Var n pat # ps) s = Some vs"
  shows "\<exists>k vs'. vs = (n, take k s) # vs' \<and> matches pat (take k s) \<and>
           mux_match ps (drop k s) = Some vs'"
proof -
  let ?ok = "\<lambda>k. matches pat (take k s) \<and> mux_match ps (drop k s) \<noteq> None"
  from assms obtain k where k: "List.find ?ok (rev [0..<Suc (length s)]) = Some k"
    and vs: "map_option (\<lambda>vs. (n, take k s) # vs) (mux_match ps (drop k s)) = Some vs"
    by (auto split: option.splits)
  from k have "?ok k" unfolding find_Some_iff by blast
  with vs show ?thesis by auto
qed

lemma segment_route_captures:
  assumes "mux_match [Raw ''/songs/'', Var ''id'' id_pattern, Raw ''/'', Var ''seg'' seg_pattern] path
             = Some vs"
  shows "\<exists>songID seg. vs = [(''id'', songID), (''seg'', seg)] \<and>
           matches id_pattern songID \<and> matches seg_pattern seg"
proof -
  let ?p1 = "drop (length ''/songs/'') path"
  from mux_match_Raw [OF assms]
  have 1: "mux_match [Var ''id'' id_pattern, Raw ''/'', Var ''seg'' seg_pattern] ?p1 = Some vs"
    by blast
  from mux_match_Var [OF 1] obtain k vs1
    where vs: "vs = (''id'', take k ?p1) # vs1"
      and id: "matches id_pattern (take k ?p1)"
      and 2: "mux_match [Raw ''/'', Var ''seg'' seg_pattern] (drop k ?p1) = Some vs1"
    by blast
  let ?p2 = "drop (length ''/'') (drop k ?p1)"
  from mux_match_Raw [OF 2]
  have 3: "mux_match [Var ''seg'' seg_pattern] ?p2 = Some vs1"
    by blast
  from mux_match_Var [OF 3] obtain j vs2
    where vs1: "vs1 = (''seg'', take j ?p2) # vs2"
      and seg: "matches seg_pattern (take j ?p2)"
      and 4: "mux_match [] (drop j ?p2) = Some vs2"
    by blast
  from 4 have "vs2 = []" by (simp split: if_splits)
  with vs vs1 id seg show ?thesis by blast
qed

lemma route_segment_only:
  assumes "route path = Some (GetStreamSegment, vs)"
  shows "\<exists>cs. mux_match [Raw ''/songs/'', Var ''id'' id_pattern, Raw ''/'', Var ''seg'' seg_pattern]
                 path = Some cs \<and> vs = map_of cs"
  using assms unfolding route_def routes_def first_route.simps
  by (simp split: option.splits if_splits del: mux_match.simps)

text \<open>
  Every request the router hands to the segment handler carries a nonempty identifier
  of digits and a segment name that is a relative path with at most one dot or slash.
\<close>

lemma routed_segment_request:
  assumes "route path = Some (GetStreamSegment, vs)"
  shows "\<exists>songID seg. vs ''id'' = Some songID \<and> vs ''seg'' = Some seg \<and> songID \<noteq> [] \<and>
           matches seg_pattern seg \<and> take 1 seg = ''f'' \<and>
           length (filter (\<lambda>x. x = CHR ''.'' \<or> x = CHR ''/'') seg) \<le> 1"
proof -
  from route_segment_only [OF assms] obtain cs
    where cs: "mux_match [Raw ''/songs/'', Var ''id'' id_pattern, Raw ''/'', Var ''seg'' seg_pattern]
                 path = Some cs"
      and vs: "vs = map_of cs"
    by blast
  from segment_route_captures [OF cs] obtain songID seg
    where caps: "cs = [(''id'', songID), (''seg'', seg)]"
      and id: "matches id_pattern songID" and seg: "matches seg_pattern seg"
    by blast
  from id have "songID \<noteq> []" by (rule id_pattern_nonempty)
  moreover from vs caps have "vs ''id'' = Some songID" "vs ''seg'' = Some seg" by simp_all
  ultimately show ?thesis
    using seg segment_name_relative_one_separator [OF seg] by blast
qed

lemma route_playlist_only:
  assumes "route path = Some (GetStreamPlaylist, vs)"
  shows "\<exists>cs. mux_match [Raw ''/songs/'', Var ''id'' id_pattern, Raw ''/stream''] path = Some cs \<and>
           vs = map_of cs"
  using assms unfolding route_def routes_def first_route.simps
  by (simp split: option.splits if_splits del: mux_match.simps)

text \<open>Every request the router hands to the playlist handler has a nonempty identifier.\<close>

lemma routed_playlist_request:
  assumes "route path = Some (GetStreamPlaylist, vs)"
  shows "index_vars vs ''id'' \<noteq> []"
proof -
  from route_playlist_only [OF assms] obtain cs
    where cs: "mux_match [Raw ''/songs/'', Var ''id'' id_pattern, Raw ''/stream''] path = Some cs"
      and vs: "vs = map_of cs"
    by blast
  from mux_match_Raw [OF cs]
  have 1: "mux_match [Var ''id'' id_pattern, Raw ''/stream''] (drop (length ''/songs/'') path)
             = Some cs"
    by blast
  from mux_match_Var [OF 1] obtain k cs1
    where caps: "cs = (''id'', take k (drop (length ''/songs/'') path)) # cs1"
      and id: "matches id_pattern (take k (drop (length ''/songs/'') path))"
    by blast
  from id have "take k (drop (length ''/songs/'') path) \<noteq> []"
    by (rule id_pattern_nonempty)
  with vs caps show ?thesis by (simp add: index_vars_def)
qed

section \<open>Facts about interleaved playlist requests\<close>




text \<open>One task running alone does to the world what \<^verbatim>\<open>servePlaylist\<close> does.\<close>

lemma single_task_is_servePlaylist:
  "shared (run_tasks ex h songID songPath [0, 0, 0, 0] (start_tasks 1 wld)) =
     fst (servePlaylist ex h w songID songPath wld)"
  by (simp add: run_tasks_def start_tasks_def task_step_def servePlaylist_def Let_def)

subsection \<open>Every task that is scheduled four times finishes\<close>







subsection \<open>How often the segmenter runs\<close>





subsection \<open>What is served when every run writes the same playlist\<close>





section \<open>The claims\<close>




text \<open>
  C2. The claim: when the song exists and the segmenter or a directory operation fails
  during preparation, the response is an Internal Server Error, the segmenter's failure
  being surfaced. On the code this fails. With the song 42 in the library, nothing
  prepared and a segmenter that exits with an error, \<^verbatim>\<open>hls.Segment\<close> returns that
  error, \<^verbatim>\<open>servePlaylist\<close> drops it, and the response is the file server's answer for
  the playlist path, which does not exist: no error envelope is written.
\<close>

theorem segmenter_failure_dropped:
  "snd (Segment segmenter_fails ''/music/42.mp3'' ''/tmp/hls1/42''
          \<lparr>fs = [''/tmp/hls1'' \<mapsto> Dir, ''/tmp/hls1/42'' \<mapsto> Dir], execs = []\<rparr>)
     = Some ''exit status 1'' \<and>
   handleGetStreamPlaylist segmenter_fails demo_handler newResponseWriter [''id'' \<mapsto> ''42''] demo_world
     = Inr (\<lparr>fs = [''/tmp/hls1'' \<mapsto> Dir, ''/tmp/hls1/42'' \<mapsto> Dir],
             execs = [(''mediafilesegmenter'', [''-a'', ''-f'', ''/tmp/hls1/42'', ''/music/42.mp3''])]\<rparr>,
            \<lparr>Header = [''Content-Type'' \<mapsto> ''application/x-mpegURL''], status = None,
             body = [ServedFile ''/tmp/hls1/42/prog_index.m3u8''], conn_err = None\<rparr>)"
  by (simp add: handleGetStreamPlaylist_def index_vars_def demo_handler_def demo_song_def
      servePlaylist_def playlist_path_def playlist_dir_def os_Stat_def os_IsNotExist_def
      os_Mkdir_def parent_dir_def demo_world_def Segment_def cmd_Run_def segmenter_fails_def
      Header_Set_def http_ServeFile_def newResponseWriter_def Let_def)




text \<open>
  C4. The claim: a segment file name that reaches the join onto the workspace directory
  matches \<^verbatim>\<open>fileSequence<digits>.aac\<close> and contains no slash. On the code this fails:
  the dot of the route's pattern \<^verbatim>\<open>fileSequence[0-9]+.aac\<close> is not escaped and
  matches a slash, so the path \<^verbatim>\<open>/songs/42/fileSequence0/aac\<close> is routed to the
  segment handler with the name \<^verbatim>\<open>fileSequence0/aac\<close>, which is joined as it is.
\<close>

theorem segment_name_with_slash:
  "(case route ''/songs/42/fileSequence0/aac'' of
      Some (GetStreamSegment, vs) \<Rightarrow>
        vs ''seg'' = Some ''fileSequence0/aac'' \<and>
        handleGetStreamSegment demo_handler newResponseWriter vs demo_world =
          Inr (demo_world,
               \<lparr>Header = [''Content-Type'' \<mapsto> ''audio/aac''], status = None,
                body = [ServedFile ''/tmp/hls1/42/fileSequence0/aac''], conn_err = None\<rparr>)
    | _ \<Rightarrow> False)"
  by (simp add: route_def routes_def id_pattern_def seg_pattern_def lits_def
      handleGetStreamSegment_def index_vars_def demo_handler_def serveSegment_def
      Header_Set_def http_ServeFile_def newResponseWriter_def Let_def)

text \<open>
  C5. A playlist request for an identifier the library does not know (the lookup gives
  no song and no error) is answered with the Not Found envelope, and the world is left
  as it was: no directory is created and no command is run.
\<close>

theorem playlist_unknown_song:
  assumes "index_vars vs ''id'' \<noteq> []"
    and "SongService_Song h (index_vars vs ''id'') = (None, None)"
  shows "handleGetStreamPlaylist ex h newResponseWriter vs wld = Inr (wld, not_found_reply)"
  using assms by (simp add: handleGetStreamPlaylist_def on_world_def handleNotFound_new)

theorem playlist_unknown_song_witness:
  "handleGetStreamPlaylist segmenter_ok demo_handler newResponseWriter [''id'' \<mapsto> ''7''] demo_world
     = Inr (demo_world, not_found_reply)"
  by (rule playlist_unknown_song) (simp_all add: index_vars_def demo_handler_def)







text \<open>
  C9. A segment request never prepares anything: whatever the request and the world,
  the segment handler returns the world as it was (no directory created, no command
  run), and for a song the library knows it only hands the path
  \<^verbatim>\<open><workspace>/<songID>/<segmentName>\<close> to the file server.
\<close>

theorem segment_request_frame:
  "(\<exists>w'. handleGetStreamSegment h w vs wld = Inr (wld, w')) \<and>
   (\<forall>s. index_vars vs ''id'' \<noteq> [] \<and>
        SongService_Song h (index_vars vs ''id'') = (Some s, None) \<longrightarrow>
      handleGetStreamSegment h w vs wld =
        Inr (wld, http_ServeFile (Header_Set w ''Content-Type'' ''audio/aac'')
               (TempDir h @ ''/'' @ index_vars vs ''id'' @ ''/'' @ index_vars vs ''seg'')))"
  by (auto simp: handleGetStreamSegment_def Let_def on_world_def handleNotFound_def
      handleError_known_code serveSegment_def split: prod.splits)

theorem segment_request_frame_witness:
  "handleGetStreamSegment demo_handler newResponseWriter
      [''id'' \<mapsto> ''42'', ''seg'' \<mapsto> ''fileSequence0.aac''] demo_world =
     Inr (demo_world,
          \<lparr>Header = [''Content-Type'' \<mapsto> ''audio/aac''], status = None,
           body = [ServedFile ''/tmp/hls1/42/fileSequence0.aac''], conn_err = None\<rparr>)"
proof -
  let ?vs = "[''id'' \<mapsto> ''42'', ''seg'' \<mapsto> ''fileSequence0.aac'']"
  have "index_vars ?vs ''id'' \<noteq> [] \<and>
        SongService_Song demo_handler (index_vars ?vs ''id'') = (Some demo_song, None)"
    by (simp add: index_vars_def demo_handler_def)
  with segment_request_frame [of demo_handler newResponseWriter ?vs demo_world]
  have "handleGetStreamSegment demo_handler newResponseWriter ?vs demo_world =
        Inr (demo_world,
             http_ServeFile (Header_Set newResponseWriter ''Content-Type'' ''audio/aac'')
               (TempDir demo_handler @ ''/'' @ index_vars ?vs ''id'' @ ''/'' @
                index_vars ?vs ''seg''))"
    by blast
  then show ?thesis
    by (simp add: http_ServeFile_def Header_Set_def newResponseWriter_def index_vars_def
        demo_handler_def)
qed

text \<open>
  C10. For an album identifier the album service does not know (no album, no error),
  the album handler answers with a success envelope whose data list is one null entry,
  where the song and the artist handlers answer the same lookup result with the
  Not Found envelope.
\<close>

theorem album_by_id_missing_null_entry:
  assumes "index_vars vs ''id'' \<noteq> []"
    and "AlbumService_Album h (index_vars vs ''id'') = (None, None)"
    and "SongService_Song h (index_vars vs ''id'') = (None, None)"
    and "ArtistService_Artist h (index_vars vs ''id'') = (None, None)"
  shows "handleGetAlbumByID h newResponseWriter vs =
           Inr \<lparr>Header = [''Content-Type'' \<mapsto> ''application/json''], status = Some StatusOK,
                body = [JSON (AlbumResponse [None])], conn_err = None\<rparr> \<and>
         handleGetSongByID h newResponseWriter vs = Inr not_found_reply \<and>
         handleGetArtistByID h newResponseWriter vs = Inr not_found_reply"
  using assms
  by (simp add: handleGetAlbumByID_def handleGetSongByID_def handleGetArtistByID_def
      encodeJSON_new handleNotFound_new)

theorem album_by_id_missing_null_entry_witness:
  "handleGetAlbumByID demo_handler newResponseWriter [''id'' \<mapsto> ''7''] =
     Inr \<lparr>Header = [''Content-Type'' \<mapsto> ''application/json''], status = Some StatusOK,
          body = [JSON (AlbumResponse [None])], conn_err = None\<rparr> \<and>
   handleGetSongByID demo_handler newResponseWriter [''id'' \<mapsto> ''7''] = Inr not_found_reply \<and>
   handleGetArtistByID demo_handler newResponseWriter [''id'' \<mapsto> ''7''] = Inr not_found_reply"
  by (rule album_by_id_missing_null_entry) (simp_all add: index_vars_def demo_handler_def)

end
